theory Spec2Isabelle
  imports Main "HOL-Library.Word"
begin

section \<open>Times, their renderings and the text the driver stores\<close>

text \<open>
  An instant is a number of nanoseconds since the Unix epoch. A Go \<^verbatim>\<open>time.Time\<close> is an
  instant together with the offset, in seconds east of UTC, of the zone it is shown in:
  for \<^verbatim>\<open>time.Now()\<close> the offset the local zone has at that instant.
\<close>

type_synonym instant = int

record Time =
  since_epoch :: instant
  zone_offset :: int

definition digit :: "nat \<Rightarrow> char" where
  "digit n = ''0123456789'' ! (n mod 10)"

fun decimal :: "nat \<Rightarrow> string" where
  "decimal n = (if n < 10 then [digit n] else decimal (n div 10) @ [digit (n mod 10)])"

declare decimal.simps [simp del]

definition strconv_Itoa :: "int \<Rightarrow> string" where
  "strconv_Itoa i = (if i < 0 then ''-'' @ decimal (nat (- i)) else decimal (nat i))"

text \<open>\<^verbatim>\<open>appendInt\<close> of package \<^verbatim>\<open>time\<close>: the sign, then at least \<open>width\<close> digits.\<close>

definition appendInt :: "int \<Rightarrow> nat \<Rightarrow> string" where
  "appendInt x width =
     (let ds = decimal (nat \<bar>x\<bar>)
      in (if x < 0 then ''-'' else []) @ replicate (width - length ds) (CHR ''0'') @ ds)"

text \<open>
  The civil date of a day number (days since 1970-01-01) in the proleptic Gregorian
  calendar: year, month, day.
\<close>

definition civil :: "int \<Rightarrow> int \<times> int \<times> int" where
  "civil days =
     (let z = days + 719468;
          era = z div 146097;
          doe = z - era * 146097;
          yoe = (doe - doe div 1460 + doe div 36524 - doe div 146096) div 365;
          doy = doe - (365 * yoe + yoe div 4 - yoe div 100);
          mp = (5 * doy + 2) div 153;
          d = doy - (153 * mp + 2) div 5 + 1;
          m = (if mp < 10 then mp + 3 else mp - 9);
          y = yoe + era * 400
      in (if m \<le> 2 then y + 1 else y, m, d))"

text \<open>
  The zone of layout \<^verbatim>\<open>Z07:00\<close>: \<^verbatim>\<open>Z\<close> for offset zero, else sign, hours and minutes
  of the offset (Go's division truncates towards zero).
\<close>

definition zone_suffix :: "int \<Rightarrow> string" where
  "zone_suffix offset =
     (if offset = 0 then ''Z''
      else let zone = sgn offset * (\<bar>offset\<bar> div 60)
           in (if zone < 0 then ''-'' else ''+'')
              @ appendInt (\<bar>zone\<bar> div 60) 2 @ '':'' @ appendInt (\<bar>zone\<bar> mod 60) 2)"

text \<open>
  \<^verbatim>\<open>t.Format(time.RFC3339)\<close>, layout \<^verbatim>\<open>2006-01-02T15:04:05Z07:00\<close>, for a time whose
  location has the given offset east of UTC, in seconds.
\<close>

definition time_Format_RFC3339 :: "int \<Rightarrow> instant \<Rightarrow> string" where
  "time_Format_RFC3339 offset t =
     (let secs = t div 1000000000 + offset;
          (y, m, d) = civil (secs div 86400);
          r = secs mod 86400
      in appendInt y 4 @ ''-'' @ appendInt m 2 @ ''-'' @ appendInt d 2 @ ''T''
         @ appendInt (r div 3600) 2 @ '':'' @ appendInt (r mod 3600 div 60) 2 @ '':''
         @ appendInt (r mod 60) 2 @ zone_suffix offset)"

definition time_Unix :: "int \<Rightarrow> int \<Rightarrow> instant" where
  "time_Unix sec nsec = sec * 1000000000 + nsec"

definition Format_RFC3339 :: "Time \<Rightarrow> string" where
  "Format_RFC3339 t = time_Format_RFC3339 (zone_offset t) (since_epoch t)"

text \<open>
  The driver (\<^verbatim>\<open>go-sqlite3\<close>) binds a \<^verbatim>\<open>time.Time\<close> argument as the text of layout
  \<^verbatim>\<open>2006-01-02 15:04:05.999999999-07:00\<close>: the wall-clock time in the zone of the value,
  the fraction of the second without its trailing zeros (nothing for a whole second), and
  the offset as sign, hours and minutes (never \<^verbatim>\<open>Z\<close>).
\<close>

definition numeric_zone :: "int \<Rightarrow> string" where
  "numeric_zone offset =
     (let zone = sgn offset * (\<bar>offset\<bar> div 60)
      in (if zone < 0 then ''-'' else ''+'')
         @ appendInt (\<bar>zone\<bar> div 60) 2 @ '':'' @ appendInt (\<bar>zone\<bar> mod 60) 2)"

definition frac_seconds :: "int \<Rightarrow> string" where
  "frac_seconds nsec =
     (if nsec = 0 then []
      else ''.'' @ rev (dropWhile (\<lambda>c. c = CHR ''0'') (rev (appendInt nsec 9))))"

definition sqlite_text :: "Time \<Rightarrow> string" where
  "sqlite_text t =
     (let secs = since_epoch t div 1000000000 + zone_offset t;
          (y, m, d) = civil (secs div 86400);
          r = secs mod 86400
      in appendInt y 4 @ ''-'' @ appendInt m 2 @ ''-'' @ appendInt d 2 @ '' ''
         @ appendInt (r div 3600) 2 @ '':'' @ appendInt (r mod 3600 div 60) 2 @ '':''
         @ appendInt (r mod 60) 2 @ frac_seconds (since_epoch t mod 1000000000)
         @ numeric_zone (zone_offset t))"

text \<open>
  SQLite keeps such a value as text and compares two of them byte by byte, a proper prefix
  being smaller.
\<close>

fun text_le :: "string \<Rightarrow> string \<Rightarrow> bool" where
  "text_le [] ys = True"
| "text_le (x # xs) [] = False"
| "text_le (x # xs) (y # ys) =
     (if x = y then text_le xs ys else (of_char x :: nat) < of_char y)"

text \<open>
  Reading a column declared \<^verbatim>\<open>DATETIME\<close>, the driver parses the text back (the data
  source name of the program sets no \<^verbatim>\<open>_loc\<close>): the same wall-clock time in a zone
  with the offset written in the text, which is the offset of the stored value cut to whole
  minutes, and UTC when that is zero. A text whose year is not of four digits does not
  parse, and the driver yields the zero \<^verbatim>\<open>time.Time\<close>, January 1 of year 1 in UTC.
\<close>

definition local_year :: "Time \<Rightarrow> int" where
  "local_year t = fst (civil ((since_epoch t div 1000000000 + zone_offset t) div 86400))"

definition zero_Time :: Time where
  "zero_Time = \<lparr>since_epoch = - 62135596800000000000, zone_offset = 0\<rparr>"

definition parse_stored :: "Time \<Rightarrow> Time" where
  "parse_stored t =
     (if 0 \<le> local_year t \<and> local_year t \<le> 9999 then
        (let z = sgn (zone_offset t) * (\<bar>zone_offset t\<bar> div 60) * 60
         in \<lparr>since_epoch = since_epoch t + (zone_offset t - z) * 1000000000, zone_offset = z\<rparr>)
      else zero_Time)"

section \<open>The persistent store\<close>

text \<open>
  The program of \<^verbatim>\<open>main.go\<close> keeps two SQLite tables, \<^verbatim>\<open>counter\<close> (one row per
  increment) and \<^verbatim>\<open>counter_aggregate\<close> (one row per aggregation run). Both have an
  integer column and a timestamp column. Go's \<^verbatim>\<open>int\<close> and SQLite's INTEGER are taken as
  64-bit two's complement values (a 64-bit platform), so the running total of the aggregator
  is a \<open>64 word\<close> and its addition wraps. The timestamp of a row is kept as the
  \<^verbatim>\<open>time.Time\<close> that was written; the text SQLite holds and orders by, and the value
  the driver reads back, are computed from it.
\<close>

type_synonym row = "64 word \<times> Time"

record column =
  col_name :: string
  col_type :: string
  not_null :: bool

record table =
  columns :: "column list"
  rows :: "row list"

record store =
  counter :: "table option"
  counter_aggregate :: "table option"

datatype error = ErrNoRows | ErrTxDone | ErrConnDone | DriverError string

fun Error :: "error \<Rightarrow> string" where
  "Error ErrNoRows = ''sql: no rows in result set''"
| "Error ErrTxDone = ''sql: transaction has already been committed or rolled back''"
| "Error ErrConnDone = ''sql: connection is already closed''"
| "Error (DriverError msg) = msg"

subsection \<open>The statements the program issues\<close>

datatype stmt =
    CreateCounter
  | CreateCounterAggregate
  | InsertCounter "64 word" Time
  | InsertAggregate "64 word" Time

definition counter_columns :: "column list" where
  "counter_columns =
     [\<lparr>col_name = ''count'', col_type = ''INTEGER'', not_null = True\<rparr>,
      \<lparr>col_name = ''created_at'', col_type = ''DATETIME'', not_null = True\<rparr>]"

definition counter_aggregate_columns :: "column list" where
  "counter_aggregate_columns =
     [\<lparr>col_name = ''counts'', col_type = ''INTEGER'', not_null = True\<rparr>,
      \<lparr>col_name = ''created_at'', col_type = ''DATETIME'', not_null = True\<rparr>]"

text \<open>
  \<^verbatim>\<open>CREATE TABLE IF NOT EXISTS\<close> leaves an existing table as it is, whatever its columns;
  an \<^verbatim>\<open>INSERT\<close> into a table that does not exist is an error of the driver. A table
  that exists is taken to have the columns the statements name: on a table made by someone
  else without them SQLite rejects the statement, and a run represents that, like every
  failure the store does not determine, as a fault of the call (next section).
\<close>

fun exec_sql :: "stmt \<Rightarrow> store \<Rightarrow> error + store" where
  "exec_sql CreateCounter s =
     (case counter s of
        None \<Rightarrow> Inr (s\<lparr>counter := Some \<lparr>columns = counter_columns, rows = []\<rparr>\<rparr>)
      | Some _ \<Rightarrow> Inr s)"
| "exec_sql CreateCounterAggregate s =
     (case counter_aggregate s of
        None \<Rightarrow> Inr (s\<lparr>counter_aggregate :=
                        Some \<lparr>columns = counter_aggregate_columns, rows = []\<rparr>\<rparr>)
      | Some _ \<Rightarrow> Inr s)"
| "exec_sql (InsertCounter c t) s =
     (case counter s of
        None \<Rightarrow> Inl (DriverError ''no such table: counter'')
      | Some tb \<Rightarrow> Inr (s\<lparr>counter := Some (tb\<lparr>rows := rows tb @ [(c, t)]\<rparr>)\<rparr>))"
| "exec_sql (InsertAggregate c t) s =
     (case counter_aggregate s of
        None \<Rightarrow> Inl (DriverError ''no such table: counter_aggregate'')
      | Some tb \<Rightarrow> Inr (s\<lparr>counter_aggregate := Some (tb\<lparr>rows := rows tb @ [(c, t)]\<rparr>)\<rparr>))"

text \<open>\<^verbatim>\<open>SELECT count FROM counter\<close>: the first column of every row, in row order.\<close>

definition select_count :: "store \<Rightarrow> error + 64 word list" where
  "select_count s =
     (case counter s of
        None \<Rightarrow> Inl (DriverError ''no such table: counter'')
      | Some tb \<Rightarrow> Inr (map fst (rows tb)))"

text \<open>
  \<^verbatim>\<open>ORDER BY created_at DESC LIMIT 1\<close>: a row whose stored text no other row's exceeds,
  in the order of the texts, not of the instants. Among rows with equal texts the earliest
  inserted one is taken here.
\<close>

fun latest :: "row list \<Rightarrow> row option" where
  "latest [] = None"
| "latest (r # rs) =
     (case latest rs of
        None \<Rightarrow> Some r
      | Some m \<Rightarrow>
          if text_le (sqlite_text (snd m)) (sqlite_text (snd r)) then Some r else Some m)"

definition select_latest :: "store \<Rightarrow> error + row" where
  "select_latest s =
     (case counter_aggregate s of
        None \<Rightarrow> Inl (DriverError ''no such table: counter_aggregate'')
      | Some tb \<Rightarrow> (case latest (rows tb) of None \<Rightarrow> Inl ErrNoRows | Some r \<Rightarrow> Inr r))"

section \<open>Connections and transactions of \<^verbatim>\<open>database/sql\<close>\<close>

text \<open>
  One operation owns one connection and at most one transaction. A transaction works on a
  copy of the committed store, taken when it begins; a commit that succeeds replaces the
  committed store by that copy, and a commit that fails, a rollback, or the cancellation of
  the context the transaction was begun under discards it. Every call of the library may
  fail: the \<open>faults\<close> of a run say which calls do, and with which driver message.
\<close>

datatype conn_state = NoConn | ConnOpen | ConnClosed

datatype tx_state = NoTx | TxActive | TxCommitted | TxRolledBack

record world =
  committed :: store
  working :: store
  conn :: conn_state
  tx :: tx_state
  logged :: "string list"

record faults =
  conn_fault :: "string option"
  begin_fault :: "string option"
  exec_fault :: "string option"
  exec2_fault :: "string option"
  query_fault :: "string option"
  next_fault :: "(nat \<times> string) option"
  scan_fault :: "(nat \<times> string) option"
  rollback_fault :: "string option"
  commit_fault :: "string option"
  close_fault :: "string option"
  rows_close_fault :: "string option"

definition no_faults :: faults where
  "no_faults =
     \<lparr>conn_fault = None, begin_fault = None, exec_fault = None, exec2_fault = None,
      query_fault = None, next_fault = None, scan_fault = None, rollback_fault = None,
      commit_fault = None, close_fault = None, rows_close_fault = None\<rparr>"

definition start :: "store \<Rightarrow> world" where
  "start s = \<lparr>committed = s, working = s, conn = NoConn, tx = NoTx, logged = []\<rparr>"

definition db_Conn :: "string option \<Rightarrow> world \<Rightarrow> error option \<times> world" where
  "db_Conn flt w =
     (case flt of
        Some msg \<Rightarrow> (Some (DriverError msg), w)
      | None \<Rightarrow> (None, w\<lparr>conn := ConnOpen\<rparr>))"

definition conn_BeginTx :: "string option \<Rightarrow> world \<Rightarrow> error option \<times> world" where
  "conn_BeginTx flt w =
     (case flt of
        Some msg \<Rightarrow> (Some (DriverError msg), w)
      | None \<Rightarrow> (None, w\<lparr>tx := TxActive, working := committed w\<rparr>))"

definition tx_ExecContext :: "string option \<Rightarrow> stmt \<Rightarrow> world \<Rightarrow> error option \<times> world" where
  "tx_ExecContext flt q w =
     (if tx w \<noteq> TxActive then (Some ErrTxDone, w)
      else case flt of
        Some msg \<Rightarrow> (Some (DriverError msg), w)
      | None \<Rightarrow>
          (case exec_sql q (working w) of
             Inl err \<Rightarrow> (Some err, w)
           | Inr s' \<Rightarrow> (None, w\<lparr>working := s'\<rparr>)))"

definition tx_Commit :: "string option \<Rightarrow> world \<Rightarrow> error option \<times> world" where
  "tx_Commit flt w =
     (if tx w \<noteq> TxActive then (Some ErrTxDone, w)
      else case flt of
        Some msg \<Rightarrow> (Some (DriverError msg), w\<lparr>tx := TxRolledBack\<rparr>)
      | None \<Rightarrow> (None, w\<lparr>committed := working w, tx := TxCommitted\<rparr>))"

definition tx_Rollback :: "string option \<Rightarrow> world \<Rightarrow> error option \<times> world" where
  "tx_Rollback flt w =
     (if tx w \<noteq> TxActive then (Some ErrTxDone, w)
      else (map_option DriverError flt, w\<lparr>tx := TxRolledBack\<rparr>))"

definition conn_Close :: "string option \<Rightarrow> world \<Rightarrow> error option \<times> world" where
  "conn_Close flt w = (map_option DriverError flt, w\<lparr>conn := ConnClosed\<rparr>)"

text \<open>
  Cancelling a context rolls back the transaction begun under it, if it is still open
  (\<^verbatim>\<open>BeginTx\<close>: ``if the context is canceled, the sql package will roll back the
  transaction'').
\<close>

definition cancel :: "world \<Rightarrow> world" where
  "cancel w = (if tx w = TxActive then w\<lparr>tx := TxRolledBack\<rparr> else w)"

definition log_Println :: "error \<Rightarrow> world \<Rightarrow> world" where
  "log_Println err w = w\<lparr>logged := logged w @ [Error err]\<rparr>"

section \<open>Rendering with \<^verbatim>\<open>encoding/json\<close>\<close>

text \<open>
  \<^verbatim>\<open>json.Marshal\<close> of the map with keys \<^verbatim>\<open>counter\<close> (an int) and \<^verbatim>\<open>lastDate\<close>
  (a string): keys in sorted order. The strings marshalled by the program are RFC 3339
  renderings, none of whose characters \<^verbatim>\<open>encoding/json\<close> escapes. It does not fail on such
  a map; the program's branch for its error is kept all the same.
\<close>

definition json_Marshal :: "int \<Rightarrow> string \<Rightarrow> error + string" where
  \<open>json_Marshal n lastDate =
     Inr (''{"counter":'' @ strconv_Itoa n @ '',"lastDate":"'' @ lastDate @ ''"}'')\<close>

section \<open>The HTTP handlers and the aggregator\<close>

text \<open>
  The environment of the process: the offset of its local time zone east of UTC at the
  Unix epoch, in seconds (\<^verbatim>\<open>time.Unix(0, 0)\<close> is a local time), and \<^verbatim>\<open>strconv.Quote\<close>,
  which is left open.
\<close>

record env =
  local_offset :: int
  strconv_Quote :: "string \<Rightarrow> string"

record response =
  status :: nat
  content_type :: string
  body :: string

definition error_response :: "env \<Rightarrow> error \<Rightarrow> response" where
  \<open>error_response e err =
     \<lparr>status = 500, content_type = ''application/json'',
      body = ''{"error":'' @ strconv_Quote e (Error err) @ ''}''\<rparr>\<close>

definition ok_response :: "string \<Rightarrow> response" where
  "ok_response b = \<lparr>status = 200, content_type = ''application/json'', body = b\<rparr>"

text \<open>The deferred \<^verbatim>\<open>Close\<close> of the connection: its error is only logged.\<close>

definition deferred_Close :: "faults \<Rightarrow> world \<Rightarrow> world" where
  "deferred_Close f w =
     (case conn_Close (close_fault f) w of
        (Some err, w') \<Rightarrow> log_Println err w'
      | (None, w') \<Rightarrow> w')"

subsection \<open>\<^verbatim>\<open>Migrate\<close>\<close>

definition Migrate :: "faults \<Rightarrow> store \<Rightarrow> error option \<times> world" where
  "Migrate f s =
     (case db_Conn (conn_fault f) (start s) of
        (Some err, w) \<Rightarrow> (Some err, w)
      | (None, w1) \<Rightarrow>
          (let ret = (\<lambda>(r, w). (r, deferred_Close f w)) in
           case conn_BeginTx (begin_fault f) w1 of
             (Some err, w2) \<Rightarrow> ret (Some err, w2)
           | (None, w2) \<Rightarrow>
               (case tx_ExecContext (exec_fault f) CreateCounter w2 of
                  (Some err, w3) \<Rightarrow>
                    (case tx_Rollback (rollback_fault f) w3 of
                       (Some e, w4) \<Rightarrow> ret (Some e, w4)
                     | (None, w4) \<Rightarrow> ret (Some err, w4))
                | (None, w3) \<Rightarrow>
                    (case tx_ExecContext (exec2_fault f) CreateCounterAggregate w3 of
                       (Some err, w4) \<Rightarrow>
                         (case tx_Rollback (rollback_fault f) w4 of
                            (Some e, w5) \<Rightarrow> ret (Some e, w5)
                          | (None, w5) \<Rightarrow> ret (Some err, w5))
                     | (None, w4) \<Rightarrow>
                         (case tx_Commit (commit_fault f) w4 of
                            (Some err, w5) \<Rightarrow> ret (Some err, w5)
                          | (None, w5) \<Rightarrow> ret (None, w5))))))"

subsection \<open>\<^verbatim>\<open>Add\<close>\<close>

text \<open>
  \<open>spawned\<close> says whether the handler reached \<^verbatim>\<open>go d.CreateAggregate()\<close>; \<open>now\<close> is
  the reading of \<^verbatim>\<open>time.Now()\<close> passed to the insert.
\<close>

record add_result =
  response :: response
  after :: world
  spawned :: bool

definition Add :: "env \<Rightarrow> faults \<Rightarrow> Time \<Rightarrow> store \<Rightarrow> add_result" where
  \<open>Add e f now s =
     (case db_Conn (conn_fault f) (start s) of
        (Some err, w) \<Rightarrow> \<lparr>response = error_response e err, after = w, spawned = False\<rparr>
      | (None, w1) \<Rightarrow>
          (let fail = (\<lambda>err w. \<lparr>response = error_response e err,
                                 after = deferred_Close f w, spawned = False\<rparr>) in
           case conn_BeginTx (begin_fault f) w1 of
             (Some err, w2) \<Rightarrow> fail err w2
           | (None, w2) \<Rightarrow>
               (case tx_ExecContext (exec_fault f) (InsertCounter 1 now) w2 of
                  (Some err, w3) \<Rightarrow>
                    (case tx_Rollback (rollback_fault f) w3 of
                       (Some _, w4) \<Rightarrow> fail err w4
                     | (None, w4) \<Rightarrow> fail err w4)
                | (None, w3) \<Rightarrow>
                    (case tx_Commit (commit_fault f) w3 of
                       (Some err, w4) \<Rightarrow>
                         (case tx_Rollback (rollback_fault f) w4 of
                            (Some _, w5) \<Rightarrow> fail err w5
                          | (None, w5) \<Rightarrow> fail err w5)
                     | (None, w4) \<Rightarrow>
                         \<lparr>response = ok_response ''{"message":"success"}'',
                          after = deferred_Close f w4, spawned = True\<rparr>))))\<close>

subsection \<open>\<^verbatim>\<open>List\<close>\<close>

text \<open>
  \<^verbatim>\<open>QueryRowContext(...).Scan\<close> on the connection, outside any transaction: it reads the
  committed store and yields \<open>ErrNoRows\<close> when the table has no row. The timestamp it
  scans is the stored text parsed back by the driver.
\<close>

definition conn_QueryRow_Scan :: "string option \<Rightarrow> world \<Rightarrow> (error + row) \<times> world" where
  "conn_QueryRow_Scan flt w =
     (if conn w \<noteq> ConnOpen then (Inl ErrConnDone, w)
      else case flt of
        Some msg \<Rightarrow> (Inl (DriverError msg), w)
      | None \<Rightarrow>
          (case select_latest (committed w) of
             Inl err \<Rightarrow> (Inl err, w)
           | Inr (counts, created_at) \<Rightarrow> (Inr (counts, parse_stored created_at), w)))"

definition List :: "env \<Rightarrow> faults \<Rightarrow> store \<Rightarrow> response \<times> world" where
  "List e f s =
     (case db_Conn (conn_fault f) (start s) of
        (Some err, w) \<Rightarrow> (error_response e err, cancel w)
      | (None, w1) \<Rightarrow>
          (let ret = (\<lambda>r w. (r, cancel (deferred_Close f w))) in
           case conn_QueryRow_Scan (query_fault f) w1 of
             (Inl err, w2) \<Rightarrow>
               (if err = ErrNoRows then
                  (case json_Marshal 0
                          (time_Format_RFC3339 (local_offset e) (time_Unix 0 0)) of
                     Inl err' \<Rightarrow> ret (error_response e err') w2
                   | Inr responseBody \<Rightarrow> ret (ok_response responseBody) w2)
                else ret (error_response e err) w2)
           | (Inr (counts, lastDate), w2) \<Rightarrow>
               (case json_Marshal (sint counts) (Format_RFC3339 lastDate) of
                  Inl err \<Rightarrow> ret (error_response e err) w2
                | Inr responseBody \<Rightarrow> ret (ok_response responseBody) w2)))"

subsection \<open>\<^verbatim>\<open>CreateAggregate\<close>\<close>

definition tx_QueryContext :: "string option \<Rightarrow> world \<Rightarrow> (error + 64 word list) \<times> world" where
  "tx_QueryContext flt w =
     (if tx w \<noteq> TxActive then (Inl ErrTxDone, w)
      else case flt of
        Some msg \<Rightarrow> (Inl (DriverError msg), w)
      | None \<Rightarrow> (select_count (working w), w))"

text \<open>
  The loop \<^verbatim>\<open>for rows.Next() { rows.Scan(&count); counts += count }\<close> from row number
  \<open>i\<close> on. \<^verbatim>\<open>rows.Next()\<close> is false at the end of the rows and also when fetching the
  next row fails (fault \<open>nf\<close>, at a row number); the program never calls \<^verbatim>\<open>rows.Err()\<close>,
  so both leave the loop with the total so far. A failing \<^verbatim>\<open>Scan\<close> (fault \<open>sf\<close>) is
  returned.
\<close>

fun scan_rows ::
  "(nat \<times> string) option \<Rightarrow> (nat \<times> string) option \<Rightarrow> nat \<Rightarrow> 64 word list \<Rightarrow> 64 word
     \<Rightarrow> error + 64 word" where
  "scan_rows nf sf i [] counts = Inr counts"
| "scan_rows nf sf i (count # rest) counts =
     (if (case nf of Some (k, _) \<Rightarrow> k = i | None \<Rightarrow> False) then Inr counts
      else case (case sf of Some (k, msg) \<Rightarrow> if k = i then Some msg else None
                          | None \<Rightarrow> None) of
        Some msg \<Rightarrow> Inl (DriverError msg)
      | None \<Rightarrow> scan_rows nf sf (Suc i) rest (counts + count))"

text \<open>
  The deferred \<^verbatim>\<open>rows.Close()\<close>: the rows are already closed when \<^verbatim>\<open>rows.Next()\<close>
  has returned false, and closing them again returns no error.
\<close>

definition deferred_rows_Close :: "faults \<Rightarrow> bool \<Rightarrow> world \<Rightarrow> world" where
  "deferred_rows_Close f still_open w =
     (if still_open then
        (case rows_close_fault f of
           Some msg \<Rightarrow> log_Println (DriverError msg) w
         | None \<Rightarrow> w)
      else w)"

definition log_created :: "64 word \<Rightarrow> world \<Rightarrow> world" where
  "log_created counts w =
     w\<lparr>logged := logged w @ [''Aggregate created, with counts: '' @ strconv_Itoa (sint counts)]\<rparr>"

definition CreateAggregate :: "faults \<Rightarrow> Time \<Rightarrow> store \<Rightarrow> world" where
  "CreateAggregate f now s =
     (case db_Conn (conn_fault f) (start s) of
        (Some err, w) \<Rightarrow> cancel (log_Println err w)
      | (None, w1) \<Rightarrow>
          (let ret = (\<lambda>w. cancel (deferred_Close f w)) in
           case conn_BeginTx (begin_fault f) w1 of
             (Some err, w2) \<Rightarrow> ret (log_Println err w2)
           | (None, w2) \<Rightarrow>
               (case tx_QueryContext (query_fault f) w2 of
                  (Inl err, w3) \<Rightarrow> ret (log_Println err w3)
                | (Inr rws, w3) \<Rightarrow>
                    (case scan_rows (next_fault f) (scan_fault f) 0 rws 0 of
                       Inl err \<Rightarrow> ret (deferred_rows_Close f True (log_Println err w3))
                     | Inr counts \<Rightarrow>
                         (let ret' = (\<lambda>w. ret (deferred_rows_Close f False w)) in
                          case tx_ExecContext (exec_fault f) (InsertAggregate counts now) w3 of
                            (Some err, w4) \<Rightarrow>
                              (case tx_Rollback (rollback_fault f) w4 of
                                 (Some _, w5) \<Rightarrow> ret' (log_Println err w5)
                               | (None, w5) \<Rightarrow> ret' (log_Println err w5))
                          | (None, w4) \<Rightarrow>
                              (case tx_Commit (commit_fault f) w4 of
                                 (Some err, w5) \<Rightarrow> ret' (log_Println err w5)
                               | (None, w5) \<Rightarrow> ret' (log_created counts w5)))))))"

section \<open>Notions used by the properties\<close>

text \<open>
  An operation has released its resources when its connection is not open any more and its
  transaction, if it began one, has been committed or rolled back.
\<close>

definition released :: "world \<Rightarrow> bool" where
  "released w = (conn w \<noteq> ConnOpen \<and> tx w \<noteq> TxActive)"

text \<open>
  The error of the first step of \<^verbatim>\<open>Add\<close> that fails, in program order: acquiring the
  connection, beginning the transaction, the insert (which also fails when the table is
  missing), the commit. \<open>None\<close> when every step succeeds.
\<close>

definition Add_failure :: "faults \<Rightarrow> store \<Rightarrow> error option" where
  "Add_failure f s =
     (case conn_fault f of Some msg \<Rightarrow> Some (DriverError msg) | None \<Rightarrow>
      case begin_fault f of Some msg \<Rightarrow> Some (DriverError msg) | None \<Rightarrow>
      case exec_fault f of Some msg \<Rightarrow> Some (DriverError msg) | None \<Rightarrow>
      case counter s of None \<Rightarrow> Some (DriverError ''no such table: counter'') | Some _ \<Rightarrow>
      map_option DriverError (commit_fault f))"

text \<open>
  A request to \<^verbatim>\<open>/api/add\<close> together with the aggregation it spawns, the latter run to
  its end with faults \<open>fa\<close> and clock reading \<open>now'\<close>: the response of the request and the
  store afterwards.
\<close>

definition Add_then_aggregate ::
  "env \<Rightarrow> faults \<Rightarrow> Time \<Rightarrow> faults \<Rightarrow> Time \<Rightarrow> store \<Rightarrow> response \<times> store" where
  "Add_then_aggregate e f now fa now' s =
     (let r = Add e f now s in
      if spawned r then (response r, committed (CreateAggregate fa now' (committed (after r))))
      else (response r, committed (after r)))"

text \<open>
  A sequence of calls of \<^verbatim>\<open>Add\<close>, each with its faults and clock reading, with no
  aggregation in between: the store after the last one, provided every call answered 200.
\<close>

fun RecordEvents :: "env \<Rightarrow> (faults \<times> Time) list \<Rightarrow> store \<Rightarrow> store option" where
  "RecordEvents e [] s = Some s"
| "RecordEvents e ((f, now) # calls) s =
     (let r = Add e f now s in
      if status (response r) = 200 then RecordEvents e calls (committed (after r)) else None)"

subsection \<open>Concrete environments and stores\<close>

text \<open>
  What \<^verbatim>\<open>strconv.Quote\<close> returns for a string of printable ASCII characters other than
  the double quote and the backslash: the string between double quotes.
\<close>

definition plain_Quote :: "string \<Rightarrow> string" where
  "plain_Quote s = [CHR 0x22] @ s @ [CHR 0x22]"

definition utc :: env where
  "utc = \<lparr>local_offset = 0, strconv_Quote = plain_Quote\<rparr>"

text \<open>A process whose local zone is seven hours east of UTC.\<close>

definition jakarta :: env where
  "jakarta = \<lparr>local_offset = 25200, strconv_Quote = plain_Quote\<rparr>"

text \<open>A process in Newfoundland, three and a half hours west of UTC at the epoch.\<close>

definition st_johns :: env where
  "st_johns = \<lparr>local_offset = - 12600, strconv_Quote = plain_Quote\<rparr>"

text \<open>Clock readings in UTC, and in a zone of a given offset, at a whole second.\<close>

definition at_offset :: "int \<Rightarrow> int \<Rightarrow> Time" where
  "at_offset offset sec = \<lparr>since_epoch = sec * 1000000000, zone_offset = offset\<rparr>"

definition at_utc :: "int \<Rightarrow> Time" where
  "at_utc sec = \<lparr>since_epoch = sec * 1000000000, zone_offset = 0\<rparr>"

definition empty_store :: store where
  "empty_store = \<lparr>counter = None, counter_aggregate = None\<rparr>"

definition fresh_store :: store where
  "fresh_store =
     \<lparr>counter = Some \<lparr>columns = counter_columns, rows = []\<rparr>,
      counter_aggregate = Some \<lparr>columns = counter_aggregate_columns, rows = []\<rparr>\<rparr>"

definition two_events :: store where
  "two_events =
     \<lparr>counter = Some \<lparr>columns = counter_columns, rows = [(1, at_utc 10), (1, at_utc 20)]\<rparr>,
      counter_aggregate = Some \<lparr>columns = counter_aggregate_columns, rows = []\<rparr>\<rparr>"

text \<open>Two snapshots written seven hours east of UTC, ten seconds apart.\<close>

definition two_snapshots :: store where
  "two_snapshots =
     \<lparr>counter = Some \<lparr>columns = counter_columns, rows = [(1, at_utc 10), (1, at_utc 20)]\<rparr>,
      counter_aggregate =
        Some \<lparr>columns = counter_aggregate_columns,
              rows = [(1, at_offset 25200 1700000000), (2, at_offset 25200 1700000010)]\<rparr>\<rparr>"

text \<open>
  Two snapshots written in a zone that ends daylight saving time between them
  (Newfoundland, November 1 of 2026): the first at 01:30:00 with offset -02:30, the
  second forty minutes later, at 01:10:00 with offset -03:30.
\<close>

definition dst_snapshots :: store where
  "dst_snapshots =
     \<lparr>counter = Some \<lparr>columns = counter_columns, rows = [(1, at_utc 10), (1, at_utc 20)]\<rparr>,
      counter_aggregate =
        Some \<lparr>columns = counter_aggregate_columns,
              rows = [(1, at_offset (- 9000) 1793505600),
                      (2, at_offset (- 12600) 1793508000)]\<rparr>\<rparr>"

definition locked :: faults where
  "locked = no_faults\<lparr>next_fault := Some (0, ''database is locked'')\<rparr>"

text \<open>
  One increment and its aggregation, then a second increment whose aggregation meets a
  failing \<^verbatim>\<open>rows.Next()\<close> at the first row.
\<close>

definition scenario_before :: store where
  "scenario_before =
     snd (Add_then_aggregate utc no_faults (at_utc 1700000000)
            no_faults (at_utc 1700000010) fresh_store)"

definition scenario_after :: store where
  "scenario_after =
     snd (Add_then_aggregate utc no_faults (at_utc 1700000020)
            locked (at_utc 1700000030) scenario_before)"

definition commit_fails :: faults where
  "commit_fails = no_faults\<lparr>commit_fault := Some ''database is locked''\<rparr>"

definition io_error :: faults where
  "io_error = no_faults\<lparr>next_fault := Some (1, ''disk I/O error'')\<rparr>"

definition three_calls :: "(faults \<times> Time) list" where
  "three_calls = [(no_faults, at_utc 10), (no_faults, at_utc 20), (no_faults, at_utc 30)]"

definition three_events :: store where
  "three_events =
     \<lparr>counter = Some \<lparr>columns = counter_columns,
                     rows = [(1, at_utc 10), (1, at_utc 20), (1, at_utc 30)]\<rparr>,
      counter_aggregate = Some \<lparr>columns = counter_aggregate_columns, rows = []\<rparr>\<rparr>"

section \<open>Facts about the library calls and the operations\<close>

lemmas lib_defs = db_Conn_def conn_BeginTx_def tx_ExecContext_def tx_Commit_def tx_Rollback_def
  conn_Close_def deferred_Close_def start_def log_Println_def cancel_def Let_def

lemmas agg_defs = CreateAggregate_def lib_defs tx_QueryContext_def select_count_def
  deferred_rows_Close_def log_created_def

lemmas list_defs = List_def lib_defs conn_QueryRow_Scan_def select_latest_def json_Marshal_def

lemmas add_defs = Add_def lib_defs

lemmas scenario_defs = utc_def jakarta_def st_johns_def plain_Quote_def fresh_store_def
  two_events_def two_snapshots_def dst_snapshots_def empty_store_def no_faults_def locked_def
  commit_fails_def io_error_def three_calls_def three_events_def

lemma Add_fails:
  assumes "Add_failure f s = Some err"
  shows "response (Add e f now s) = error_response e err"
    and "committed (after (Add e f now s)) = s"
    and "tx (after (Add e f now s)) \<noteq> TxCommitted"
    and "tx (after (Add e f now s)) \<noteq> TxActive"
    and "\<not> spawned (Add e f now s)"
proof -
  have "response (Add e f now s) = error_response e err
      \<and> committed (after (Add e f now s)) = s
      \<and> tx (after (Add e f now s)) \<noteq> TxCommitted
      \<and> tx (after (Add e f now s)) \<noteq> TxActive
      \<and> \<not> spawned (Add e f now s)"
  proof (cases "conn_fault f")
    case (Some m)
    with assms show ?thesis by (simp add: Add_failure_def add_defs)
  next
    case f1: None
    show ?thesis
    proof (cases "begin_fault f")
      case (Some m)
      with assms f1 show ?thesis by (simp add: Add_failure_def add_defs split: option.splits)
    next
      case f2: None
      show ?thesis
      proof (cases "exec_fault f")
        case (Some m)
        with assms f1 f2 show ?thesis
          by (simp add: Add_failure_def add_defs split: option.splits)
      next
        case f3: None
        show ?thesis
        proof (cases "counter s")
          case None
          with assms f1 f2 f3 show ?thesis
            by (simp add: Add_failure_def add_defs split: option.splits)
        next
          case tb: (Some tb)
          show ?thesis
          proof (cases "commit_fault f")
            case None
            with assms f1 f2 f3 tb show ?thesis by (simp add: Add_failure_def)
          next
            case (Some m)
            with assms f1 f2 f3 tb show ?thesis
              by (simp add: Add_failure_def add_defs split: option.splits)
          qed
        qed
      qed
    qed
  qed
  then show "response (Add e f now s) = error_response e err"
    and "committed (after (Add e f now s)) = s"
    and "tx (after (Add e f now s)) \<noteq> TxCommitted"
    and "tx (after (Add e f now s)) \<noteq> TxActive"
    and "\<not> spawned (Add e f now s)"
    by simp_all
qed

lemma Add_succeeds:
  assumes "Add_failure f s = None"
  shows "\<exists>tb. counter s = Some tb
           \<and> committed (after (Add e f now s))
               = s\<lparr>counter := Some (tb\<lparr>rows := rows tb @ [(1, now)]\<rparr>)\<rparr>"
    and "response (Add e f now s) = ok_response ''{\"message\":\"success\"}''"
    and "spawned (Add e f now s)"
    and "tx (after (Add e f now s)) = TxCommitted"
proof -
  from assms have f: "conn_fault f = None" "begin_fault f = None" "exec_fault f = None"
      "commit_fault f = None"
    by (auto simp add: Add_failure_def split: option.splits)
  from assms obtain tb where tb: "counter s = Some tb"
    by (auto simp add: Add_failure_def split: option.splits)
  from f tb show "\<exists>tb. counter s = Some tb
           \<and> committed (after (Add e f now s))
               = s\<lparr>counter := Some (tb\<lparr>rows := rows tb @ [(1, now)]\<rparr>)\<rparr>"
    by (simp add: add_defs split: option.splits)
  from f tb show "response (Add e f now s) = ok_response ''{\"message\":\"success\"}''"
    by (simp add: add_defs split: option.splits)
  from f tb show "spawned (Add e f now s)"
    by (simp add: add_defs split: option.splits)
  from f tb show "tx (after (Add e f now s)) = TxCommitted"
    by (simp add: add_defs split: option.splits)
qed

lemma Add_ok_no_failure:
  assumes "status (response (Add e f now s)) = 200"
  shows "Add_failure f s = None"
proof (cases "Add_failure f s")
  case None
  then show ?thesis .
next
  case (Some err)
  from Add_fails(1)[OF this, of e now] assms show ?thesis
    by (simp add: error_response_def)
qed

lemma Add_committed_no_failure:
  assumes "tx (after (Add e f now s)) = TxCommitted"
  shows "Add_failure f s = None"
proof (cases "Add_failure f s")
  case None
  then show ?thesis .
next
  case (Some err)
  from Add_fails(3)[OF this, of e now] assms show ?thesis by simp
qed

lemma Migrate_success_tables:
  assumes "Migrate f s = (None, w)"
  shows "counter (committed w) \<noteq> None \<and> counter_aggregate (committed w) \<noteq> None"
proof -
  have f1: "conn_fault f = None"
    using assms by (cases "conn_fault f") (simp_all add: Migrate_def lib_defs)
  have f2: "begin_fault f = None"
    using assms f1
    by (cases "begin_fault f") (simp_all add: Migrate_def lib_defs split: option.splits)
  have f3: "exec_fault f = None"
    using assms f1 f2
    by (cases "exec_fault f") (simp_all add: Migrate_def lib_defs split: option.splits)
  have f4: "exec2_fault f = None"
    using assms f1 f2 f3
    by (cases "exec2_fault f"; cases "counter s")
       (simp_all add: Migrate_def lib_defs split: option.splits)
  have f5: "commit_fault f = None"
    using assms f1 f2 f3 f4
    by (cases "commit_fault f"; cases "counter s"; cases "counter_aggregate s")
       (simp_all add: Migrate_def lib_defs split: option.splits)
  show ?thesis
    using assms f1 f2 f3 f4 f5
    by (cases "counter s"; cases "counter_aggregate s")
       (auto simp add: Migrate_def lib_defs split: option.splits)
qed

lemma Migrate_existing_tables:
  assumes "counter s \<noteq> None" and "counter_aggregate s \<noteq> None"
  shows "committed (snd (Migrate f s)) = s"
    and "conn_fault f = None \<Longrightarrow> begin_fault f = None \<Longrightarrow> exec_fault f = None
          \<Longrightarrow> exec2_fault f = None \<Longrightarrow> commit_fault f = None \<Longrightarrow> fst (Migrate f s) = None"
proof -
  from assms obtain tb ta where t: "counter s = Some tb" "counter_aggregate s = Some ta"
    by auto
  show "committed (snd (Migrate f s)) = s"
    using t
    by (cases "conn_fault f"; cases "begin_fault f"; cases "exec_fault f"; cases "exec2_fault f";
        cases "commit_fault f")
       (simp_all add: Migrate_def lib_defs split: option.splits)
  show "conn_fault f = None \<Longrightarrow> begin_fault f = None \<Longrightarrow> exec_fault f = None
          \<Longrightarrow> exec2_fault f = None \<Longrightarrow> commit_fault f = None \<Longrightarrow> fst (Migrate f s) = None"
    using t by (simp add: Migrate_def lib_defs split: option.splits)
qed






lemma List_empty:
  assumes "counter_aggregate s = Some tb" and "rows tb = []"
    and "conn_fault f = None" and "query_fault f = None"
  shows "fst (List e f s) =
           ok_response (''{\"counter\":0,\"lastDate\":\"''
                        @ time_Format_RFC3339 (local_offset e) (time_Unix 0 0) @ ''\"}'')"
  using assms by (simp add: list_defs strconv_Itoa_def decimal.simps digit_def)

lemma epoch_utc: "time_Format_RFC3339 0 (time_Unix 0 0) = ''1970-01-01T00:00:00Z''"
  by code_simp

lemma epoch_jakarta: "time_Format_RFC3339 25200 (time_Unix 0 0) = ''1970-01-01T07:00:00+07:00''"
  by code_simp

lemma List_committed: "committed (snd (List e f s)) = s"
  by (cases "conn_fault f"; cases "query_fault f")
     (simp_all add: list_defs split: option.splits sum.splits prod.splits)

lemma Migrate_released: "released (snd (Migrate f s))"
  by (simp add: Migrate_def lib_defs released_def split: option.splits sum.splits)

lemma Add_released: "released (after (Add e f now s))"
  by (simp add: Add_def lib_defs released_def split: option.splits sum.splits)

lemma List_released: "released (snd (List e f s))"
  by (simp add: list_defs released_def split: option.splits sum.splits prod.splits)

lemma CreateAggregate_released: "released (CreateAggregate f now s)"
  by (simp add: agg_defs released_def split: option.splits sum.splits prod.splits)

lemma RecordEvents_rows:
  assumes "RecordEvents e calls s = Some s'" and "counter s = Some tb"
  shows "\<exists>tb'. counter s' = Some tb'
           \<and> map fst (rows tb') = map fst (rows tb) @ replicate (length calls) 1
           \<and> counter_aggregate s' = counter_aggregate s"
  using assms
proof (induction calls arbitrary: s tb)
  case Nil
  then show ?case by simp
next
  case (Cons c calls)
  obtain f now where c: "c = (f, now)" by (cases c)
  from Cons.prems(1) c have ok: "status (response (Add e f now s)) = 200"
    and rest: "RecordEvents e calls (committed (after (Add e f now s))) = Some s'"
    by (auto simp add: Let_def split: if_splits)
  from Add_succeeds(1)[OF Add_ok_no_failure[OF ok], of e now] Cons.prems(2)
  have mid: "committed (after (Add e f now s)) = s\<lparr>counter := Some (tb\<lparr>rows := rows tb @ [(1, now)]\<rparr>)\<rparr>"
    by auto
  from Cons.IH[OF rest, of "tb\<lparr>rows := rows tb @ [(1, now)]\<rparr>"] mid
  show ?case by (auto simp add: replicate_app_Cons_same)
qed

lemma scan_rows_total:
  assumes "scan_rows None sf i xs acc = Inr c"
  shows "c = acc + sum_list xs"
  using assms
proof (induction xs arbitrary: i acc)
  case Nil
  then show ?case by simp
next
  case (Cons x xs)
  from Cons.prems have "scan_rows None sf (Suc i) xs (acc + x) = Inr c"
    by (auto split: option.splits if_splits)
  from Cons.IH[OF this] show ?case by (simp add: add.assoc)
qed

lemma CreateAggregate_committed:
  assumes "tx (CreateAggregate f now s) = TxCommitted"
  shows "\<exists>tb ta c. counter s = Some tb \<and> counter_aggregate s = Some ta
           \<and> scan_rows (next_fault f) (scan_fault f) 0 (map fst (rows tb)) 0 = Inr c
           \<and> committed (CreateAggregate f now s)
               = s\<lparr>counter_aggregate := Some (ta\<lparr>rows := rows ta @ [(c, now)]\<rparr>)\<rparr>"
proof -
  have f1: "conn_fault f = None"
    using assms by (cases "conn_fault f") (simp_all add: agg_defs)
  have f2: "begin_fault f = None"
    using assms f1 by (cases "begin_fault f") (simp_all add: agg_defs split: option.splits)
  have f3: "query_fault f = None"
    using assms f1 f2 by (cases "query_fault f") (simp_all add: agg_defs split: option.splits)
  obtain tb where tb: "counter s = Some tb"
    using assms f1 f2 f3 by (cases "counter s") (simp_all add: agg_defs split: option.splits)
  obtain c where c: "scan_rows (next_fault f) (scan_fault f) 0 (map fst (rows tb)) 0 = Inr c"
    using assms f1 f2 f3 tb
    by (cases "scan_rows (next_fault f) (scan_fault f) 0 (map fst (rows tb)) 0")
       (simp_all add: agg_defs split: option.splits)
  have f4: "exec_fault f = None"
    using assms f1 f2 f3 tb c by (cases "exec_fault f") (simp_all add: agg_defs split: option.splits)
  obtain ta where ta: "counter_aggregate s = Some ta"
    using assms f1 f2 f3 tb c f4
    by (cases "counter_aggregate s") (simp_all add: agg_defs split: option.splits)
  have f5: "commit_fault f = None"
    using assms f1 f2 f3 tb c f4 ta
    by (cases "commit_fault f") (simp_all add: agg_defs split: option.splits)
  have "committed (CreateAggregate f now s)
          = s\<lparr>counter_aggregate := Some (ta\<lparr>rows := rows ta @ [(c, now)]\<rparr>)\<rparr>"
    using f1 f2 f3 tb c f4 ta f5 by (simp add: agg_defs split: option.splits)
  with tb ta c show ?thesis by blast
qed

lemma sum_list_ones: "sum_list (replicate n (1 :: 64 word)) = of_nat n"
  by (induction n) simp_all

lemma sint_of_nat_64:
  assumes "n < 2 ^ 63"
  shows "sint (of_nat n :: 64 word) = int n"
  using assms by (simp add: signed_of_nat signed_take_bit_int_eq_self)

lemma CreateAggregate_uncommitted:
  "tx (CreateAggregate f now s) \<noteq> TxCommitted \<Longrightarrow> committed (CreateAggregate f now s) = s"
  by (simp add: agg_defs split: option.splits sum.splits prod.splits)

lemma scenario_before_eq:
  "scenario_before =
     \<lparr>counter = Some \<lparr>columns = counter_columns, rows = [(1, at_utc 1700000000)]\<rparr>,
      counter_aggregate =
        Some \<lparr>columns = counter_aggregate_columns, rows = [(1, at_utc 1700000010)]\<rparr>\<rparr>"
  by (simp add: scenario_before_def Add_then_aggregate_def add_defs agg_defs scenario_defs)

lemma scenario_after_eq:
  "scenario_after =
     \<lparr>counter = Some \<lparr>columns = counter_columns,
                     rows = [(1, at_utc 1700000000), (1, at_utc 1700000020)]\<rparr>,
      counter_aggregate =
        Some \<lparr>columns = counter_aggregate_columns,
              rows = [(1, at_utc 1700000010), (0, at_utc 1700000030)]\<rparr>\<rparr>"
  by (simp add: scenario_after_def scenario_before_eq Add_then_aggregate_def add_defs agg_defs
      scenario_defs)



lemma scenario_texts:
  "\<not> text_le (sqlite_text (at_utc 1700000030)) (sqlite_text (at_utc 1700000010))"
  by code_simp



lemma render_before:
  "Format_RFC3339 (parse_stored (at_utc 1700000010)) = ''2023-11-14T22:13:30Z''"
  by code_simp

lemma render_after:
  "Format_RFC3339 (parse_stored (at_utc 1700000030)) = ''2023-11-14T22:13:50Z''"
  by code_simp

lemma Itoa_0: "strconv_Itoa 0 = ''0''"
  by code_simp

lemma Itoa_1: "strconv_Itoa 1 = ''1''"
  by code_simp



section \<open>The properties\<close>

text \<open>
  Claim C1. After N calls of \<^verbatim>\<open>Add\<close> that each answered 200, run from a store whose
  \<^verbatim>\<open>counter\<close> table is empty and with no aggregation in between, an aggregation that
  commits and whose row iteration met no error appends one snapshot whose counts are N and
  whose timestamp is its clock reading. The counts are a 64-bit value; read as a signed
  integer they are N for every N below \<open>2 ^ 63\<close>.
\<close>

theorem counts_equal_N:
  assumes "RecordEvents e calls s0 = Some s1"
    and "counter s0 = Some tb0" and "rows tb0 = []"
    and "tx (CreateAggregate f now s1) = TxCommitted"
    and "next_fault f = None"
  shows "(\<exists>ta. counter_aggregate s1 = Some ta
            \<and> counter_aggregate (committed (CreateAggregate f now s1))
                = Some (ta\<lparr>rows := rows ta @ [(of_nat (length calls), now)]\<rparr>))
       \<and> (length calls < 2 ^ 63 \<longrightarrow> sint (of_nat (length calls) :: 64 word) = int (length calls))"
proof -
  from RecordEvents_rows[OF assms(1,2)] assms(3)
  obtain tb1 where tb1: "counter s1 = Some tb1" "map fst (rows tb1) = replicate (length calls) 1"
    by auto
  from CreateAggregate_committed[OF assms(4)] tb1(1) assms(5)
  obtain ta c where ta: "counter_aggregate s1 = Some ta"
    and c: "scan_rows None (scan_fault f) 0 (map fst (rows tb1)) 0 = Inr c"
    and st: "committed (CreateAggregate f now s1)
               = s1\<lparr>counter_aggregate := Some (ta\<lparr>rows := rows ta @ [(c, now)]\<rparr>)\<rparr>"
    by auto
  from scan_rows_total[OF c] tb1(2) have "c = of_nat (length calls)"
    by (simp add: sum_list_ones)
  with ta st show ?thesis by (simp add: sint_of_nat_64)
qed

theorem counts_equal_N_witness:
  "RecordEvents utc three_calls fresh_store = Some three_events
   \<and> tx (CreateAggregate no_faults (at_utc 40) three_events) = TxCommitted
   \<and> counter_aggregate (committed (CreateAggregate no_faults (at_utc 40) three_events))
       = Some \<lparr>columns = counter_aggregate_columns, rows = [(3, at_utc 40)]\<rparr>
   \<and> sint (3 :: 64 word) = 3"
proof -
  have h1: "RecordEvents utc three_calls fresh_store = Some three_events"
    by (simp add: add_defs scenario_defs ok_response_def)
  have h2: "counter fresh_store = Some \<lparr>columns = counter_columns, rows = []\<rparr>"
    by (simp add: fresh_store_def)
  have h3: "rows \<lparr>columns = counter_columns, rows = []\<rparr> = []"
    by simp
  have h4: "tx (CreateAggregate no_faults (at_utc 40) three_events) = TxCommitted"
    by (simp add: agg_defs scenario_defs)
  have h5: "next_fault no_faults = None"
    by (simp add: no_faults_def)
  have len: "length three_calls = 3"
    by (simp add: three_calls_def)
  show ?thesis
    using h1 h4 counts_equal_N[OF h1 h2 h3 h4 h5] len
    by (simp add: three_events_def)
qed

text \<open>
  Claim C2, as stated, fails: \<^verbatim>\<open>time.Unix(0, 0)\<close> is a local time, so in a process
  whose local zone is seven hours east of UTC the empty store is reported with the epoch
  rendered in that zone, not as \<^verbatim>\<open>1970-01-01T00:00:00Z\<close>.
\<close>

theorem List_empty_store_local_zone:
  "fst (List jakarta no_faults fresh_store)
     = ok_response ''{\"counter\":0,\"lastDate\":\"1970-01-01T07:00:00+07:00\"}''
   \<and> body (fst (List jakarta no_faults fresh_store))
     \<noteq> ''{\"counter\":0,\"lastDate\":\"1970-01-01T00:00:00Z\"}''"
proof -
  have "fst (List jakarta no_faults fresh_store)
          = ok_response (''{\"counter\":0,\"lastDate\":\"''
                         @ time_Format_RFC3339 (local_offset jakarta) (time_Unix 0 0) @ ''\"}'')"
    by (rule List_empty[of fresh_store "\<lparr>columns = counter_aggregate_columns, rows = []\<rparr>"])
       (simp_all add: fresh_store_def no_faults_def)
  then show ?thesis
    by (simp add: jakarta_def epoch_jakarta ok_response_def)
qed

text \<open>
  Claim C2, amended. When the \<^verbatim>\<open>counter_aggregate\<close> table has no row and neither the
  acquisition of the connection nor the query fails, \<^verbatim>\<open>List\<close> answers 200 with counter 0
  and, as \<^verbatim>\<open>lastDate\<close>, the Unix epoch rendered in the local zone of the process; when
  that zone has offset zero the body is exactly
  \<^verbatim>\<open>{"counter":0,"lastDate":"1970-01-01T00:00:00Z"}\<close>.
\<close>

theorem List_empty_store:
  assumes "counter_aggregate s = Some tb" and "rows tb = []"
    and "conn_fault f = None" and "query_fault f = None"
  shows "fst (List e f s) =
           ok_response (''{\"counter\":0,\"lastDate\":\"''
                        @ time_Format_RFC3339 (local_offset e) (time_Unix 0 0) @ ''\"}'')
       \<and> status (fst (List e f s)) = 200
       \<and> (local_offset e = 0 \<longrightarrow>
            body (fst (List e f s)) = ''{\"counter\":0,\"lastDate\":\"1970-01-01T00:00:00Z\"}'')"
  using List_empty[OF assms, of e] epoch_utc by (simp add: ok_response_def)

theorem List_empty_store_witness:
  "counter_aggregate fresh_store = Some \<lparr>columns = counter_aggregate_columns, rows = []\<rparr>
   \<and> conn_fault no_faults = None \<and> query_fault no_faults = None \<and> local_offset utc = 0
   \<and> status (fst (List utc no_faults fresh_store)) = 200
   \<and> body (fst (List utc no_faults fresh_store))
       = ''{\"counter\":0,\"lastDate\":\"1970-01-01T00:00:00Z\"}''"
proof -
  have h1: "counter_aggregate fresh_store = Some \<lparr>columns = counter_aggregate_columns, rows = []\<rparr>"
    by (simp add: fresh_store_def)
  have h2: "rows \<lparr>columns = counter_aggregate_columns, rows = []\<rparr> = []"
    by simp
  have h3: "conn_fault no_faults = None"
    by (simp add: no_faults_def)
  have h4: "query_fault no_faults = None"
    by (simp add: no_faults_def)
  have h5: "local_offset utc = 0"
    by (simp add: utc_def)
  show ?thesis
    using h1 h3 h4 h5 List_empty_store[OF h1 h2 h3 h4, of utc]
    by (simp add: ok_response_def epoch_utc)
qed

text \<open>
  Claim C3 fails on the code at an error of the row iteration. With two events stored and
  \<^verbatim>\<open>rows.Next()\<close> failing at the second row, \<^verbatim>\<open>CreateAggregate\<close> logs no error: it
  commits a snapshot holding the partial total 1 and logs the success message.
\<close>

theorem CreateAggregate_ignores_iteration_error:
  "committed (CreateAggregate io_error (at_utc 30) two_events)
     = two_events\<lparr>counter_aggregate :=
         Some \<lparr>columns = counter_aggregate_columns, rows = [(1, at_utc 30)]\<rparr>\<rparr>
   \<and> tx (CreateAggregate io_error (at_utc 30) two_events) = TxCommitted
   \<and> logged (CreateAggregate io_error (at_utc 30) two_events) = [''Aggregate created, with counts: 1'']"
  by (simp add: agg_defs scenario_defs Itoa_1)

text \<open>
  Claim C4. When a step of \<^verbatim>\<open>Add\<close> fails (acquiring the connection, beginning the
  transaction, the insert, the commit), the response is the 500 response carrying that
  error, the committed store is unchanged, the transaction is neither committed nor left
  open, and no aggregation is spawned.
\<close>

theorem Add_failure_surfaced:
  assumes "Add_failure f s = Some err"
  shows "response (Add e f now s) = error_response e err
       \<and> status (response (Add e f now s)) = 500
       \<and> committed (after (Add e f now s)) = s
       \<and> tx (after (Add e f now s)) \<noteq> TxCommitted
       \<and> tx (after (Add e f now s)) \<noteq> TxActive
       \<and> \<not> spawned (Add e f now s)"
  using Add_fails[OF assms, of e now] by (simp add: error_response_def)

theorem Add_failure_surfaced_witness:
  "Add_failure commit_fails fresh_store = Some (DriverError ''database is locked'')
   \<and> response (Add utc commit_fails (at_utc 10) fresh_store)
       = \<lparr>status = 500, content_type = ''application/json'',
          body = ''{\"error\":\"database is locked\"}''\<rparr>
   \<and> committed (after (Add utc commit_fails (at_utc 10) fresh_store)) = fresh_store
   \<and> \<not> spawned (Add utc commit_fails (at_utc 10) fresh_store)"
proof -
  have h: "Add_failure commit_fails fresh_store = Some (DriverError ''database is locked'')"
    by (simp add: Add_failure_def scenario_defs)
  show ?thesis
    using h Add_failure_surfaced[OF h, of utc "at_utc 10"]
    by (simp add: error_response_def utc_def plain_Quote_def)
qed

text \<open>
  Claim C5. Once \<^verbatim>\<open>Migrate\<close> has returned no error, running it again leaves the store
  (both tables, their columns and their rows) unchanged whatever fails, and returns no error
  when none of its storage calls fails.
\<close>

theorem Migrate_idempotent:
  assumes "Migrate f1 s = (None, w1)"
  shows "committed (snd (Migrate f2 (committed w1))) = committed w1
       \<and> (conn_fault f2 = None \<and> begin_fault f2 = None \<and> exec_fault f2 = None
            \<and> exec2_fault f2 = None \<and> commit_fault f2 = None
          \<longrightarrow> fst (Migrate f2 (committed w1)) = None)"
  using Migrate_success_tables[OF assms] Migrate_existing_tables[of "committed w1" f2]
  by blast

theorem Migrate_idempotent_witness:
  "Migrate no_faults empty_store
     = (None, \<lparr>committed = fresh_store, working = fresh_store, conn = ConnClosed,
               tx = TxCommitted, logged = []\<rparr>)
   \<and> committed (snd (Migrate no_faults fresh_store)) = fresh_store
   \<and> fst (Migrate no_faults fresh_store) = None"
proof -
  have h: "Migrate no_faults empty_store
     = (None, \<lparr>committed = fresh_store, working = fresh_store, conn = ConnClosed,
               tx = TxCommitted, logged = []\<rparr>)"
    by (simp add: Migrate_def lib_defs scenario_defs)
  show ?thesis
    using h Migrate_idempotent[OF h, of no_faults]
    by (simp add: no_faults_def)
qed




text \<open>
  Claim C7 fails on the code. After one increment and its aggregation \<^verbatim>\<open>List\<close> reports
  counter 1; after a second increment whose aggregation meets a failing \<^verbatim>\<open>rows.Next()\<close>
  at the first row, and so commits a snapshot with total 0, \<^verbatim>\<open>List\<close> reports counter 0.
\<close>

theorem counter_decreases:
  "body (fst (List utc no_faults scenario_before))
     = ''{\"counter\":1,\"lastDate\":\"2023-11-14T22:13:30Z\"}''
 \<and> body (fst (List utc no_faults scenario_after))
     = ''{\"counter\":0,\"lastDate\":\"2023-11-14T22:13:50Z\"}''"
  by (simp add: scenario_before_eq scenario_after_eq list_defs utc_def no_faults_def
      ok_response_def render_before render_after scenario_texts Itoa_0 Itoa_1)

text \<open>
  Claim C8. When the commit of \<^verbatim>\<open>Add\<close> succeeds, the handler spawns the aggregation and
  its response is 200 with body \<^verbatim>\<open>{"message":"success"}\<close>, whatever the faults and the
  clock reading of the spawned aggregation.
\<close>

theorem Add_success_independent:
  assumes "tx (after (Add e f now s)) = TxCommitted"
  shows "spawned (Add e f now s)
       \<and> response (Add e f now s) = ok_response ''{\"message\":\"success\"}''
       \<and> fst (Add_then_aggregate e f now fa now' s) = ok_response ''{\"message\":\"success\"}''"
  using Add_succeeds(2,3)[OF Add_committed_no_failure[OF assms], of e now]
  by (simp add: Add_then_aggregate_def)

theorem Add_success_independent_witness:
  "tx (after (Add utc no_faults (at_utc 10) fresh_store)) = TxCommitted
   \<and> spawned (Add utc no_faults (at_utc 10) fresh_store)
   \<and> fst (Add_then_aggregate utc no_faults (at_utc 10) commit_fails (at_utc 20) fresh_store)
       = \<lparr>status = 200, content_type = ''application/json'',
          body = ''{\"message\":\"success\"}''\<rparr>
   \<and> snd (Add_then_aggregate utc no_faults (at_utc 10) commit_fails (at_utc 20) fresh_store)
       = committed (after (Add utc no_faults (at_utc 10) fresh_store))"
proof -
  have h: "tx (after (Add utc no_faults (at_utc 10) fresh_store)) = TxCommitted"
    by (simp add: add_defs scenario_defs)
  have agg: "snd (Add_then_aggregate utc no_faults (at_utc 10) commit_fails (at_utc 20) fresh_store)
       = committed (after (Add utc no_faults (at_utc 10) fresh_store))"
    by (simp add: Add_then_aggregate_def add_defs agg_defs scenario_defs)
  show ?thesis
    using h agg Add_success_independent[OF h, of commit_fails "at_utc 20"]
    by (simp add: ok_response_def)
qed

text \<open>
  Claim C9. Each of the four operations has released its resources when it returns, on
  every path: its connection is not open and its transaction is not left active. On the
  paths of \<^verbatim>\<open>CreateAggregate\<close> that return after a failed query or scan without calling
  \<^verbatim>\<open>Rollback\<close>, the transaction is ended by the deferred cancellation of its context.
\<close>

theorem operations_release:
  "released (snd (Migrate f s)) \<and> released (after (Add e f now s))
   \<and> released (CreateAggregate f now s) \<and> released (snd (List e f s))"
  by (simp add: Migrate_released Add_released CreateAggregate_released List_released)

text \<open>
  Claim C10. \<^verbatim>\<open>List\<close> leaves the committed store, and so both tables, unchanged on every
  path: with a snapshot, with the zero state, and with an error.
\<close>

theorem List_read_only:
  "committed (snd (List e f s)) = s"
  by (rule List_committed)

end
